theory Spec2Isabelle
  imports Main "HOL-Library.Sublist" "HOL-Library.Word"
begin

section \<open>Strings of the host language\<close>

text \<open>
  A source string is a list of code units. The model uses \<^typ>\<open>string\<close>, so every
  code unit lies below 256 (the Latin-1 range); \<open>length\<close> is the source's
  \<^verbatim>\<open>.length\<close>. The character classes below are the ones the source relies on
  through \<^verbatim>\<open>trim\<close>, \<^verbatim>\<open>toLowerCase\<close> and the regular expression classes
  \<^verbatim>\<open>\s\<close>, \<^verbatim>\<open>\w\<close>, \<^verbatim>\<open>[a-zA-Z_]\<close>, restricted to that range.
\<close>

definition code_unit :: "char \<Rightarrow> nat" where
  "code_unit c = of_char c"

text \<open>White space and line terminators (\<^verbatim>\<open>\s\<close>, and what \<^verbatim>\<open>trim\<close> strips):
  TAB, LF, VT, FF, CR, space and the no-break space U+00A0.\<close>

definition is_space :: "char \<Rightarrow> bool" where
  "is_space c = (let n = code_unit c in (9 \<le> n \<and> n \<le> 13) \<or> n = 32 \<or> n = 160)"

definition is_upper :: "char \<Rightarrow> bool" where
  "is_upper c = (let n = code_unit c in 65 \<le> n \<and> n \<le> 90)"

definition is_lower :: "char \<Rightarrow> bool" where
  "is_lower c = (let n = code_unit c in 97 \<le> n \<and> n \<le> 122)"

definition is_digit :: "char \<Rightarrow> bool" where
  "is_digit c = (let n = code_unit c in 48 \<le> n \<and> n \<le> 57)"

text \<open>\<^verbatim>\<open>[a-zA-Z_]\<close>\<close>

definition is_ident_start :: "char \<Rightarrow> bool" where
  "is_ident_start c = (is_upper c \<or> is_lower c \<or> c = CHR ''_'')"

text \<open>\<^verbatim>\<open>[a-zA-Z0-9_]\<close>, which is also \<^verbatim>\<open>\w\<close>\<close>

definition is_word :: "char \<Rightarrow> bool" where
  "is_word c = (is_ident_start c \<or> is_digit c)"

text \<open>\<^verbatim>\<open>toLowerCase\<close> on one code unit: A-Z, and the Latin-1 capitals U+00C0..U+00DE
  except the multiplication sign U+00D7, move up by 32.\<close>

definition lower_char :: "char \<Rightarrow> char" where
  "lower_char c =
     (let n = code_unit c in
      if (65 \<le> n \<and> n \<le> 90) \<or> (192 \<le> n \<and> n \<le> 222 \<and> n \<noteq> 215)
      then char_of (n + 32) else c)"

definition toLowerCase :: "string \<Rightarrow> string" where
  "toLowerCase s = map lower_char s"

definition trim :: "string \<Rightarrow> string" where
  "trim s = rev (dropWhile is_space (rev (dropWhile is_space s)))"

text \<open>Decimal text of a number, as a template literal or \<^verbatim>\<open>String(n)\<close> prints an
  integer.\<close>

definition digit_char :: "nat \<Rightarrow> char" where
  "digit_char d = char_of (48 + d)"

text \<open>The recursion runs on integers, where arithmetic on numerals is binary.\<close>

function string_of_digits :: "int \<Rightarrow> string" where
  "string_of_digits i =
     (if i < 10 then [digit_char (nat i)]
      else string_of_digits (i div 10) @ [digit_char (nat (i mod 10))])"
  by pat_completeness auto
termination
  by (relation "measure nat") auto

declare string_of_digits.simps [simp del]

definition string_of_nat :: "nat \<Rightarrow> string" where
  "string_of_nat n = string_of_digits (int n)"

definition string_of_int :: "int \<Rightarrow> string" where
  "string_of_int i = (if i < 0 then CHR ''-'' # string_of_digits (- i) else string_of_digits i)"

definition squote :: char where
  "squote = CHR 0x27"

section \<open>Identifier validation (sql-guard/src/identifier.ts)\<close>

text \<open>The fields \<^verbatim>\<open>valid\<close> and \<^verbatim>\<open>error\<close> of the identifier result are named
  \<open>id_valid\<close> and \<open>id_error\<close> here, apart from those of the statement validator's result.\<close>

record IdentifierValidationResult =
  id_valid :: bool
  id_error :: "string option"
  sanitized :: "string option"

text \<open>The optional configuration object; an absent field is \<open>None\<close>. (A field that is
  present with the value \<^verbatim>\<open>undefined\<close> is outside the model.)\<close>

record IdentifierConfig =
  allowedNamespaces :: "string list option"
  maxLength :: "int option"

text \<open>\<^verbatim>\<open>Required<IdentifierConfig>\<close>: the configuration after the defaults are merged in.\<close>

record RequiredIdentifierConfig =
  cfg_allowedNamespaces :: "string list"
  cfg_maxLength :: int

definition DEFAULT_IDENTIFIER_CONFIG :: RequiredIdentifierConfig where
  "DEFAULT_IDENTIFIER_CONFIG = \<lparr>cfg_allowedNamespaces = [''analytics''], cfg_maxLength = 63\<rparr>"

text \<open>\<^verbatim>\<open>{ ...DEFAULT_IDENTIFIER_CONFIG, ...config }\<close>\<close>

definition merge_identifier_config :: "IdentifierConfig option \<Rightarrow> RequiredIdentifierConfig" where
  "merge_identifier_config config =
     (case config of
        None \<Rightarrow> DEFAULT_IDENTIFIER_CONFIG
      | Some c \<Rightarrow>
          \<lparr>cfg_allowedNamespaces =
             (case allowedNamespaces c of
                None \<Rightarrow> cfg_allowedNamespaces DEFAULT_IDENTIFIER_CONFIG | Some a \<Rightarrow> a),
           cfg_maxLength =
             (case maxLength c of None \<Rightarrow> cfg_maxLength DEFAULT_IDENTIFIER_CONFIG | Some m \<Rightarrow> m)\<rparr>)"

definition SQL_KEYWORDS :: "string list" where
  "SQL_KEYWORDS =
     [''select'', ''from'', ''where'', ''and'', ''or'', ''not'', ''in'', ''is'', ''null'',
      ''true'', ''false'', ''like'', ''between'', ''exists'', ''case'', ''when'', ''then'',
      ''else'', ''end'', ''join'', ''inner'', ''outer'', ''left'', ''right'', ''full'',
      ''cross'', ''on'', ''as'', ''order'', ''by'', ''group'', ''having'', ''limit'',
      ''offset'', ''union'', ''intersect'', ''except'', ''all'', ''distinct'',
      ''insert'', ''into'', ''values'', ''update'', ''set'', ''delete'', ''drop'',
      ''create'', ''alter'', ''table'', ''index'', ''view'', ''database'', ''schema'',
      ''truncate'', ''grant'', ''revoke'', ''primary'', ''key'', ''foreign'', ''references'',
      ''constraint'', ''default'', ''check'', ''unique'', ''cascade'', ''restrict'']"

text \<open>\<^verbatim>\<open>/^[a-zA-Z_][a-zA-Z0-9_]*$/\<close>\<close>

definition IDENTIFIER_PATTERN :: "string \<Rightarrow> bool" where
  "IDENTIFIER_PATTERN s =
     (case s of [] \<Rightarrow> False | c # cs \<Rightarrow> is_ident_start c \<and> list_all is_word cs)"

definition validateIdentifier :: "string \<Rightarrow> IdentifierConfig option \<Rightarrow> IdentifierValidationResult" where
  "validateIdentifier identifier config =
     (let cfg = merge_identifier_config config in
      if identifier = [] \<or> length (trim identifier) = 0 then
        \<lparr>id_valid = False, id_error = Some ''Identifier is empty'', sanitized = None\<rparr>
      else
        let trimmed = trim identifier in
        if int (length trimmed) > cfg_maxLength cfg then
          \<lparr>id_valid = False,
           id_error = Some (''Identifier exceeds maximum length of '' @
                         string_of_int (cfg_maxLength cfg) @ '' characters''),
           sanitized = None\<rparr>
        else if \<not> IDENTIFIER_PATTERN trimmed then
          \<lparr>id_valid = False,
           id_error = Some (''Identifier must start with a letter or underscore and '' @
                         ''contain only letters, digits, or underscores''),
           sanitized = None\<rparr>
        else if toLowerCase trimmed \<in> set SQL_KEYWORDS then
          \<lparr>id_valid = False,
           id_error = Some ([squote] @ trimmed @ [squote] @ '' is a SQL reserved keyword''),
           sanitized = None\<rparr>
        else \<lparr>id_valid = True, id_error = None, sanitized = Some trimmed\<rparr>)"

section \<open>Statement validation (sql-guard/src/validator.ts)\<close>

text \<open>Faults a JavaScript operation can raise. \<open>Error m\<close> is a plain
  \<^verbatim>\<open>new Error(m)\<close>.\<close>

datatype fault = TypeError | SyntaxError | RangeError | Error string

record SqlGuardConfig =
  selectOnly :: "bool option"
  maxQueryLength :: "int option"
  blockDangerousFunctions :: "bool option"

record ValidationResult =
  valid :: bool
  errors :: "string list"
  statementType :: "string option"

text \<open>\<^verbatim>\<open>Required<SqlGuardConfig>\<close>\<close>

record RequiredSqlGuardConfig =
  cfg_selectOnly :: bool
  cfg_maxQueryLength :: int
  cfg_blockDangerousFunctions :: bool

definition DEFAULT_CONFIG :: RequiredSqlGuardConfig where
  "DEFAULT_CONFIG =
     \<lparr>cfg_selectOnly = True, cfg_maxQueryLength = 10000, cfg_blockDangerousFunctions = True\<rparr>"

text \<open>\<^verbatim>\<open>{ ...DEFAULT_CONFIG, ...config }\<close>\<close>

definition merge_config :: "SqlGuardConfig option \<Rightarrow> RequiredSqlGuardConfig" where
  "merge_config config =
     (case config of
        None \<Rightarrow> DEFAULT_CONFIG
      | Some c \<Rightarrow>
          \<lparr>cfg_selectOnly =
             (case selectOnly c of None \<Rightarrow> cfg_selectOnly DEFAULT_CONFIG | Some b \<Rightarrow> b),
           cfg_maxQueryLength =
             (case maxQueryLength c of None \<Rightarrow> cfg_maxQueryLength DEFAULT_CONFIG | Some n \<Rightarrow> n),
           cfg_blockDangerousFunctions =
             (case blockDangerousFunctions c of
                None \<Rightarrow> cfg_blockDangerousFunctions DEFAULT_CONFIG | Some b \<Rightarrow> b)\<rparr>)"

definition DANGEROUS_FUNCTIONS :: "string list" where
  "DANGEROUS_FUNCTIONS =
     [''read_csv'', ''read_csv_auto'', ''read_json'', ''read_json_auto'', ''read_parquet'',
      ''read_blob'', ''write_csv'', ''write_parquet'', ''write_json'',
      ''copy'', ''export_database'', ''import_database'', ''load'', ''install'',
      ''load_extension'', ''install_extension'']"


text \<open>
  The statement classifier \<^verbatim>\<open>identify\<close> belongs to the library sql-query-identifier.
  The validator takes it as a parameter: given the text, it either throws a value or
  returns the list of classified statements. Of a statement the validator reads the
  fields \<^verbatim>\<open>type\<close> and \<^verbatim>\<open>executionType\<close>. The classifier leaves a field out when it
  cannot tell (a lone \<^verbatim>\<open>CREATE\<close> or \<^verbatim>\<open>DROP\<close> is one statement without a type): a
  field that is missing reads as \<^verbatim>\<open>undefined\<close>, here \<open>None\<close>.
\<close>

record Result =
  type :: "string option"
  executionType :: "string option"

text \<open>A thrown value: an \<^verbatim>\<open>Error\<close> instance with its message, or any other value with
  the text \<^verbatim>\<open>String(err)\<close> gives for it.\<close>

datatype thrown = ErrorInstance string | OtherValue string

text \<open>\<^verbatim>\<open>err instanceof Error ? err.message : String(err)\<close>\<close>

definition thrown_message :: "thrown \<Rightarrow> string" where
  "thrown_message err = (case err of ErrorInstance m \<Rightarrow> m | OtherValue s \<Rightarrow> s)"

type_synonym classifier = "string \<Rightarrow> thrown + Result list"

text \<open>\<^verbatim>\<open>type.startsWith\<close> raises a TypeError when the type is \<^verbatim>\<open>undefined\<close>.\<close>

definition isAllowedStatementType :: "string option \<Rightarrow> fault + bool" where
  "isAllowedStatementType t =
     (if t = Some ''SELECT'' then Inr True
      else case t of
             None \<Rightarrow> Inl TypeError
           | Some s \<Rightarrow> if prefix ''SHOW_'' s then Inr True else Inr False)"

text \<open>A template literal prints a missing value as \<^verbatim>\<open>undefined\<close>.\<close>

definition template_text :: "string option \<Rightarrow> string" where
  "template_text t = (case t of None \<Rightarrow> ''undefined'' | Some s \<Rightarrow> s)"

subsection \<open>The pattern \<^verbatim>\<open>\bfunc\s*\(\<close> with the flag \<^verbatim>\<open>i\<close>\<close>

text \<open>
  Case-insensitive matching compares canonical code units: the upper-case mapping of a
  code unit when that is one code unit, except that a non-ASCII unit never maps into
  ASCII. In the Latin-1 range: a-z and U+00E0..U+00FE (but the division sign) move down
  by 32, U+00FF maps to U+0178 and the micro sign U+00B5 to U+039C.
\<close>

definition canonicalize :: "char \<Rightarrow> nat" where
  "canonicalize c =
     (let n = code_unit c in
      if 97 \<le> n \<and> n \<le> 122 then n - 32
      else if 224 \<le> n \<and> n \<le> 254 \<and> n \<noteq> 247 then n - 32
      else if n = 255 then 376
      else if n = 181 then 924
      else n)"

text \<open>The literal part of the pattern, matched at the start of the text.\<close>

fun literal_at :: "string \<Rightarrow> string \<Rightarrow> bool" where
  "literal_at [] text = True"
| "literal_at (p # ps) [] = False"
| "literal_at (p # ps) (t # ts) = (canonicalize p = canonicalize t \<and> literal_at ps ts)"

text \<open>\<^verbatim>\<open>\s*\(\<close> matched at the start of the text.\<close>

fun spaces_then_paren :: "string \<Rightarrow> bool" where
  "spaces_then_paren [] = False"
| "spaces_then_paren (c # cs) =
     (if c = CHR ''('' then True else if is_space c then spaces_then_paren cs else False)"

text \<open>\<^verbatim>\<open>\b\<close>: exactly one of the code unit before the position and the one at it is a
  word character. \<open>prev\<close> says whether the previous code unit is one (False at
  the start of the text).\<close>

definition word_boundary :: "bool \<Rightarrow> string \<Rightarrow> bool" where
  "word_boundary prev text = (prev \<noteq> (case text of [] \<Rightarrow> False | c # _ \<Rightarrow> is_word c))"

definition pattern_at :: "string \<Rightarrow> bool \<Rightarrow> string \<Rightarrow> bool" where
  "pattern_at func prev text =
     (word_boundary prev text \<and> literal_at func text \<and>
      spaces_then_paren (drop (length func) text))"

text \<open>\<^verbatim>\<open>test\<close> tries every start position from left to right.\<close>

fun pattern_from :: "string \<Rightarrow> bool \<Rightarrow> string \<Rightarrow> bool" where
  "pattern_from func prev [] = pattern_at func prev []"
| "pattern_from func prev (c # cs) =
     (pattern_at func prev (c # cs) \<or> pattern_from func (is_word c) cs)"

definition pattern_test :: "string \<Rightarrow> string \<Rightarrow> bool" where
  "pattern_test func text = pattern_from func False text"


definition dangerous_message :: "string \<Rightarrow> string" where
  "dangerous_message func =
     ''Function '' @ [squote] @ func @ [squote] @ '' is not allowed for security reasons''"

text \<open>The loop over the deny-list, pushing onto \<^verbatim>\<open>errors\<close>.\<close>

fun scan_dangerous :: "string list \<Rightarrow> string \<Rightarrow> string list \<Rightarrow> string list" where
  "scan_dangerous [] sqlLower errs = errs"
| "scan_dangerous (func # rest) sqlLower errs =
     scan_dangerous rest sqlLower
       (if pattern_test func sqlLower then errs @ [dangerous_message func] else errs)"

subsection \<open>validateSql and isReadOnlyQuery\<close>

text \<open>
  The result is \<open>Inr\<close> of the returned object, or \<open>Inl\<close> of a fault that leaves the
  function. Two operations of the body can raise, both outside the \<^verbatim>\<open>try\<close>: reading
  \<^verbatim>\<open>statements[0].type\<close> (on an empty list), and \<^verbatim>\<open>isAllowedStatementType\<close>, which
  \<^verbatim>\<open>cfg.selectOnly && ...\<close> calls only when \<^verbatim>\<open>selectOnly\<close> is true.
\<close>

definition validateSql ::
  "classifier \<Rightarrow> string \<Rightarrow> SqlGuardConfig option \<Rightarrow> fault + ValidationResult" where
  "validateSql identify sql config =
     (let cfg = merge_config config in
      if sql = [] \<or> length (trim sql) = 0 then
        Inr \<lparr>valid = False, errors = [''SQL query is empty''], statementType = None\<rparr>
      else if int (length sql) > cfg_maxQueryLength cfg then
        Inr \<lparr>valid = False,
             errors = [''Query exceeds maximum length of '' @
                       string_of_int (cfg_maxQueryLength cfg) @ '' bytes''],
             statementType = None\<rparr>
      else
        case identify sql of
          Inl err \<Rightarrow>
            Inr \<lparr>valid = False,
                 errors = [''Failed to parse SQL: '' @ thrown_message err],
                 statementType = None\<rparr>
        | Inr statements \<Rightarrow>
            if length statements > 1 then
              Inr \<lparr>valid = False, errors = [''Multiple statements are not allowed''],
                   statementType = None\<rparr>
            else if length statements = 0 then
              Inr \<lparr>valid = False, errors = [''Unable to identify SQL statement type''],
                   statementType = None\<rparr>
            else
              (case statements of
                [] \<Rightarrow> Inl TypeError
              | stmt # _ \<Rightarrow>
                  (case (if cfg_selectOnly cfg
                         then (case isAllowedStatementType (type stmt) of
                                 Inl f \<Rightarrow> Inl f
                               | Inr allowed \<Rightarrow> Inr (\<not> allowed))
                         else Inr False) of
                     Inl f \<Rightarrow> Inl f
                   | Inr disallowed \<Rightarrow>
                       let errors0 = [];
                           errors1 =
                             (if disallowed
                              then errors0 @ [template_text (type stmt) @
                                              '' statements are not allowed. '' @
                                              ''Only SELECT and SHOW statements are permitted.'']
                              else errors0);
                           errors2 =
                             (if executionType stmt = Some ''MODIFICATION''
                              then errors1 @ [''Write operations ('' @
                                              template_text (type stmt) @
                                              '') are not allowed'']
                              else errors1);
                           errors3 =
                             (if cfg_blockDangerousFunctions cfg
                              then scan_dangerous DANGEROUS_FUNCTIONS (toLowerCase sql) errors2
                              else errors2)
                       in Inr \<lparr>valid = (length errors3 = 0), errors = errors3,
                               statementType = type stmt\<rparr>)))"


definition isReadOnlyQuery :: "classifier \<Rightarrow> string \<Rightarrow> fault + bool" where
  "isReadOnlyQuery identify sql =
     (case validateSql identify sql
             (Some \<lparr>selectOnly = Some True, maxQueryLength = None,
                    blockDangerousFunctions = None\<rparr>) of
        Inl f \<Rightarrow> Inl f
      | Inr result \<Rightarrow> Inr (valid result))"

section \<open>Result translation (duckdb-http-adapter/src/result.ts)\<close>

text \<open>
  A cell of the response is a value decoded from JSON. A number stands for an integer
  whose decimal text has no exponent part; fractions are outside the model. An object is
  the list of its own properties in key order, with pairwise different keys.
\<close>

datatype wire =
    WNull
  | WBool bool
  | WNum int
  | WStr string
  | WArr "wire list"
  | WObj "(string \<times> wire) list"

text \<open>The time value of a \<^verbatim>\<open>Date\<close>: milliseconds since the epoch, or the invalid date
  (its time value is NaN). \<open>OtherTime\<close> is the date made from a number the model does
  not compute (see \<open>OtherNumber\<close>).\<close>

datatype time_value = Millis int | InvalidDate | OtherTime

text \<open>What \<^verbatim>\<open>transformValue\<close> returns: the value it was given, or a \<^verbatim>\<open>Date\<close>.\<close>

datatype cell = Plain wire | DateCell time_value

text \<open>A number as the model computes with it: an integer, NaN, or \<open>OtherNumber\<close> for the
  value of a text that is not an integer literal (NaN, a fraction, an infinity).\<close>

datatype number = Integer int | NotANumber | OtherNumber

subsection \<open>Conversions of the host language\<close>

definition digit_value :: "nat \<Rightarrow> char \<Rightarrow> nat option" where
  "digit_value base c =
     (let n = code_unit c;
          v = (if 48 \<le> n \<and> n \<le> 57 then Some (n - 48)
               else if 97 \<le> n \<and> n \<le> 102 then Some (n - 87)
               else if 65 \<le> n \<and> n \<le> 70 then Some (n - 55)
               else None)
      in case v of None \<Rightarrow> None | Some d \<Rightarrow> if d < base then Some d else None)"

fun parse_digits_acc :: "nat \<Rightarrow> int \<Rightarrow> string \<Rightarrow> int option" where
  "parse_digits_acc base acc [] = Some acc"
| "parse_digits_acc base acc (c # cs) =
     (case digit_value base c of
        None \<Rightarrow> None
      | Some d \<Rightarrow> parse_digits_acc base (acc * int base + int d) cs)"

text \<open>One or more digits of the base.\<close>

definition parse_digits :: "nat \<Rightarrow> string \<Rightarrow> int option" where
  "parse_digits base s = (if s = [] then None else parse_digits_acc base 0 s)"

text \<open>An integer literal of the string-to-number grammars: decimal digits with an
  optional sign, or an unsigned literal with the prefix 0x, 0o or 0b (either case).\<close>

definition parse_integer_literal :: "string \<Rightarrow> int option" where
  "parse_integer_literal s =
     (case s of
        [] \<Rightarrow> None
      | c # cs \<Rightarrow>
          if c = CHR ''-'' then map_option uminus (parse_digits 10 cs)
          else if c = CHR ''+'' then parse_digits 10 cs
          else if c = CHR ''0'' \<and> cs \<noteq> [] \<and> lower_char (hd cs) = CHR ''x''
            then parse_digits 16 (tl cs)
          else if c = CHR ''0'' \<and> cs \<noteq> [] \<and> lower_char (hd cs) = CHR ''o''
            then parse_digits 8 (tl cs)
          else if c = CHR ''0'' \<and> cs \<noteq> [] \<and> lower_char (hd cs) = CHR ''b''
            then parse_digits 2 (tl cs)
          else parse_digits 10 (c # cs))"

text \<open>\<^verbatim>\<open>String(v)\<close> for a decoded JSON value; an array joins its elements with commas,
  printing null as the empty text. (An object with an own property \<^verbatim>\<open>toString\<close> or
  \<^verbatim>\<open>valueOf\<close> is outside the model.)\<close>

fun ToString :: "wire \<Rightarrow> string" and join_elements :: "wire list \<Rightarrow> string" where
  "ToString WNull = ''null''"
| "ToString (WBool b) = (if b then ''true'' else ''false'')"
| "ToString (WNum n) = string_of_int n"
| "ToString (WStr s) = s"
| "ToString (WArr xs) = join_elements xs"
| "ToString (WObj kvs) = ''[object Object]''"
| "join_elements [] = []"
| "join_elements [x] = (if x = WNull then [] else ToString x)"
| "join_elements (x # y # ys) =
     (if x = WNull then [] else ToString x) @ '','' @ join_elements (y # ys)"

text \<open>StringToBigInt: the trimmed text is empty (zero) or an integer literal.\<close>

definition StringToBigInt :: "string \<Rightarrow> fault + int" where
  "StringToBigInt s =
     (let t = trim s in
      if t = [] then Inr 0
      else case parse_integer_literal t of None \<Rightarrow> Inl SyntaxError | Some n \<Rightarrow> Inr n)"

text \<open>\<^verbatim>\<open>BigInt(v)\<close>\<close>

definition to_BigInt :: "wire \<Rightarrow> fault + int" where
  "to_BigInt v =
     (case v of
        WNull \<Rightarrow> Inl TypeError
      | WBool b \<Rightarrow> Inr (if b then 1 else 0)
      | WNum n \<Rightarrow> Inr n
      | WStr s \<Rightarrow> StringToBigInt s
      | WArr xs \<Rightarrow> StringToBigInt (ToString v)
      | WObj kvs \<Rightarrow> StringToBigInt (ToString v))"

definition StringToNumber :: "string \<Rightarrow> number" where
  "StringToNumber s =
     (let t = trim s in
      if t = [] then Integer 0
      else case parse_integer_literal t of None \<Rightarrow> OtherNumber | Some n \<Rightarrow> Integer n)"

text \<open>\<^verbatim>\<open>Number(v)\<close>\<close>

definition to_Number :: "wire \<Rightarrow> number" where
  "to_Number v =
     (case v of
        WNull \<Rightarrow> Integer 0
      | WBool b \<Rightarrow> Integer (if b then 1 else 0)
      | WNum n \<Rightarrow> Integer n
      | WStr s \<Rightarrow> StringToNumber s
      | WArr xs \<Rightarrow> StringToNumber (ToString v)
      | WObj kvs \<Rightarrow> NotANumber)"

text \<open>Division of BigInt values rounds toward zero.\<close>

definition bigint_div :: "int \<Rightarrow> int \<Rightarrow> int" where
  "bigint_div a b = sgn a * sgn b * (\<bar>a\<bar> div \<bar>b\<bar>)"

definition number_times :: "number \<Rightarrow> int \<Rightarrow> number" where
  "number_times x k =
     (case x of Integer n \<Rightarrow> Integer (n * k) | NotANumber \<Rightarrow> NotANumber
      | OtherNumber \<Rightarrow> OtherNumber)"

text \<open>\<^verbatim>\<open>new Date(millis)\<close>: a time value beyond 8.64e15 milliseconds on either side of
  the epoch is the invalid date.\<close>

definition new_Date :: "number \<Rightarrow> time_value" where
  "new_Date x =
     (case x of
        Integer ms \<Rightarrow> if \<bar>ms\<bar> \<le> 8640000000000000 then Millis ms else InvalidDate
      | NotANumber \<Rightarrow> InvalidDate
      | OtherNumber \<Rightarrow> OtherTime)"

subsection \<open>transformValue and the result classes\<close>

text \<open>\<^verbatim>\<open>Object.keys(obj)\<close>\<close>

definition Object_keys :: "(string \<times> wire) list \<Rightarrow> string list" where
  "Object_keys obj = map fst obj"

text \<open>\<^verbatim>\<open>key in obj && Object.keys(obj).length === 1\<close>, giving the property's value.\<close>

definition only_key :: "string \<Rightarrow> (string \<times> wire) list \<Rightarrow> wire option" where
  "only_key key obj = (if length (Object_keys obj) = 1 then map_of obj key else None)"

definition transformValue :: "wire \<Rightarrow> fault + cell" where
  "transformValue v =
     (case v of
        WObj obj \<Rightarrow>
          (case only_key ''micros'' obj of
             Some m \<Rightarrow>
               (case to_BigInt m of
                  Inl f \<Rightarrow> Inl f
                | Inr micros \<Rightarrow>
                    let millis = Integer (bigint_div micros 1000)
                    in Inr (DateCell (new_Date millis)))
           | None \<Rightarrow>
               (case only_key ''days'' obj of
                  Some d \<Rightarrow>
                    let days = to_Number d;
                        millis = number_times days (24 * 60 * 60 * 1000)
                    in Inr (DateCell (new_Date millis))
                | None \<Rightarrow> Inr (Plain v)))
      | _ \<Rightarrow> Inr (Plain v))"

text \<open>\<^verbatim>\<open>xs.map(f)\<close> where \<open>f\<close> may raise: the first fault leaves the loop.\<close>

fun map_fault :: "('a \<Rightarrow> fault + 'b) \<Rightarrow> 'a list \<Rightarrow> fault + 'b list" where
  "map_fault f [] = Inr []"
| "map_fault f (x # xs) =
     (case f x of
        Inl e \<Rightarrow> Inl e
      | Inr y \<Rightarrow> (case map_fault f xs of Inl e \<Rightarrow> Inl e | Inr ys \<Rightarrow> Inr (y # ys)))"

record HttpQueryResult =
  columns :: "string list"
  rows :: "cell list list"

text \<open>\<^verbatim>\<open>row[col] ?? null\<close>, read among the row's own properties. (A column that the row
  lacks and that is named like a property every object inherits, such as
  \<^verbatim>\<open>constructor\<close>, is outside the model.)\<close>

definition row_field :: "(string \<times> wire) list \<Rightarrow> string \<Rightarrow> wire" where
  "row_field row col = (case map_of row col of None \<Rightarrow> WNull | Some v \<Rightarrow> v)"

text \<open>The constructor.\<close>

definition new_HttpQueryResult ::
  "string list \<Rightarrow> (string \<times> wire) list list \<Rightarrow> fault + HttpQueryResult" where
  "new_HttpQueryResult cols data =
     (case map_fault (\<lambda>row. map_fault (\<lambda>col. transformValue (row_field row col)) cols) data of
        Inl e \<Rightarrow> Inl e
      | Inr rs \<Rightarrow> Inr \<lparr>columns = cols, rows = rs\<rparr>)"

definition columnNames :: "HttpQueryResult \<Rightarrow> string list" where
  "columnNames r = columns r"

text \<open>The callback of \<^verbatim>\<open>deduplicatedColumnNames\<close>, run over the columns from left to
  right with the map \<^verbatim>\<open>seen\<close>.\<close>

fun dedup_names :: "(string \<rightharpoonup> nat) \<Rightarrow> string list \<Rightarrow> string list" where
  "dedup_names seen [] = []"
| "dedup_names seen (name # rest) =
     (let count = (case seen name of None \<Rightarrow> 0 | Some c \<Rightarrow> c)
      in (if count = 0 then name else name @ ''_'' @ string_of_nat count)
         # dedup_names (seen(name \<mapsto> count + 1)) rest)"

definition deduplicatedColumnNames :: "HttpQueryResult \<Rightarrow> string list" where
  "deduplicatedColumnNames r = dedup_names Map.empty (columns r)"

definition getRowsJS :: "HttpQueryResult \<Rightarrow> cell list list" where
  "getRowsJS r = rows r"

section \<open>Bound parameters (duckdb-http-adapter/src/types.ts)\<close>

text \<open>
  \<^verbatim>\<open>DuckDBValue\<close>. A number stands for an integer whose decimal text has no exponent
  part. A \<^verbatim>\<open>Date\<close> carries its time value, a \<^verbatim>\<open>Uint8Array\<close> its bytes, an object its
  own properties in key order.
\<close>

datatype DuckDBValue =
    VNull
  | VBoolean bool
  | VNumber int
  | VBigInt int
  | VString string
  | VDate time_value
  | VUint8Array "8 word list"
  | VArray "DuckDBValue list"
  | VObject "(string \<times> DuckDBValue) list"

section \<open>Prepared statements (duckdb-http-adapter/src/prepared.ts)\<close>

text \<open>The executor is the function the connection hands to the statement; \<open>'r\<close> is what
  it returns (the promise of a query result).\<close>

record 'r HttpPreparedStatement =
  query :: string
  executor :: "string \<Rightarrow> DuckDBValue list \<Rightarrow> 'r"
  boundValues :: "DuckDBValue list"
  destroyed :: bool

definition new_HttpPreparedStatement ::
  "string \<Rightarrow> (string \<Rightarrow> DuckDBValue list \<Rightarrow> 'r) \<Rightarrow> 'r HttpPreparedStatement" where
  "new_HttpPreparedStatement q ex =
     \<lparr>query = q, executor = ex, boundValues = [], destroyed = False\<rparr>"

text \<open>Each method returns the statement after the call, and either the fault it raised
  or its return value.\<close>

definition bind ::
  "'r HttpPreparedStatement \<Rightarrow> DuckDBValue list \<Rightarrow> fault + 'r HttpPreparedStatement" where
  "bind this vals =
     (if destroyed this then Inl (Error ''Cannot bind to destroyed prepared statement'')
      else Inr (this\<lparr>boundValues := vals\<rparr>))"

definition run :: "'r HttpPreparedStatement \<Rightarrow> fault + 'r" where
  "run this =
     (if destroyed this then Inl (Error ''Cannot run destroyed prepared statement'')
      else Inr (executor this (query this) (boundValues this)))"

definition destroySync :: "'r HttpPreparedStatement \<Rightarrow> 'r HttpPreparedStatement" where
  "destroySync this = this\<lparr>destroyed := True, boundValues := []\<rparr>"

text \<open>A caller's use of a statement is a sequence of method calls; each call leaves an
  outcome and the statement's next state.\<close>

datatype call = Bind "DuckDBValue list" | Run | DestroySync

datatype 'r outcome = Returned | Ran 'r | Raised fault

definition do_call ::
  "'r HttpPreparedStatement \<Rightarrow> call \<Rightarrow> 'r outcome \<times> 'r HttpPreparedStatement" where
  "do_call this c =
     (case c of
        Bind vals \<Rightarrow>
          (case bind this vals of Inl f \<Rightarrow> (Raised f, this) | Inr this' \<Rightarrow> (Returned, this'))
      | Run \<Rightarrow> (case run this of Inl f \<Rightarrow> (Raised f, this) | Inr r \<Rightarrow> (Ran r, this))
      | DestroySync \<Rightarrow> (Returned, destroySync this))"

fun do_calls ::
  "'r HttpPreparedStatement \<Rightarrow> call list \<Rightarrow> 'r outcome list \<times> 'r HttpPreparedStatement" where
  "do_calls this [] = ([], this)"
| "do_calls this (c # cs) =
     (let (out, this') = do_call this c;
          (outs, this'') = do_calls this' cs
      in (out # outs, this''))"

section \<open>Parameter substitution (duckdb-http-adapter/src/connection.ts)\<close>

text \<open>
  \<^verbatim>\<open>Date.prototype.toISOString\<close> (on a valid date) and \<^verbatim>\<open>JSON.stringify\<close> belong to the
  host language; \<^verbatim>\<open>formatValue\<close> takes them as parameters. Either raises on some
  inputs: \<^verbatim>\<open>toISOString\<close> a RangeError on the invalid date, \<^verbatim>\<open>JSON.stringify\<close> a
  TypeError on a BigInt.
\<close>

record host =
  toISOString :: "time_value \<Rightarrow> fault + string"
  JSON_stringify :: "DuckDBValue \<Rightarrow> fault + string"

text \<open>\<^verbatim>\<open>s.replace(/'/g, "''")\<close>\<close>

definition double_quotes :: "string \<Rightarrow> string" where
  "double_quotes s = concat (map (\<lambda>c. if c = squote then [squote, squote] else [c]) s)"

definition hex_digit :: "nat \<Rightarrow> char" where
  "hex_digit d = (if d < 10 then char_of (48 + d) else char_of (87 + d))"

text \<open>\<^verbatim>\<open>b.toString(16).padStart(2, '0')\<close>\<close>

definition hex_byte :: "8 word \<Rightarrow> string" where
  "hex_byte b = [hex_digit (unat b div 16), hex_digit (unat b mod 16)]"

text \<open>\<^verbatim>\<open>pieces.join(sep)\<close>\<close>

fun join :: "string \<Rightarrow> string list \<Rightarrow> string" where
  "join sep [] = []"
| "join sep [p] = p"
| "join sep (p # q # ps) = p @ sep @ join sep (q # ps)"

text \<open>\<^verbatim>\<open>s.split(sep)\<close>: the pieces between the occurrences of \<open>sep\<close>, found from left to
  right without overlap; the empty separator splits into single code units.\<close>

fun split_at :: "string \<Rightarrow> string \<Rightarrow> string list" where
  "split_at sep [] = [[]]"
| "split_at sep (c # cs) =
     (if sep \<noteq> [] \<and> prefix sep (c # cs)
      then [] # split_at sep (drop (length sep - 1) cs)
      else (case split_at sep cs of [] \<Rightarrow> [[c]] | p # ps \<Rightarrow> (c # p) # ps))"

definition split :: "string \<Rightarrow> string \<Rightarrow> string list" where
  "split s sep = (if sep = [] then map (\<lambda>c. [c]) s else split_at sep s)"

fun formatValue :: "host \<Rightarrow> DuckDBValue \<Rightarrow> fault + string"
  and formatValues :: "host \<Rightarrow> DuckDBValue list \<Rightarrow> fault + string list" where
  "formatValue h VNull = Inr ''NULL''"
| "formatValue h (VBoolean b) = Inr (if b then ''TRUE'' else ''FALSE'')"
| "formatValue h (VNumber n) = Inr (string_of_int n)"
| "formatValue h (VBigInt n) = Inr (string_of_int n)"
| "formatValue h (VString s) = Inr ([squote] @ double_quotes s @ [squote])"
| "formatValue h (VDate t) =
     (case toISOString h t of Inl f \<Rightarrow> Inl f | Inr isoText \<Rightarrow> Inr ([squote] @ isoText @ [squote]))"
| "formatValue h (VUint8Array bs) =
     Inr ([squote, CHR 0x5C, CHR ''x''] @ concat (map hex_byte bs) @ [squote] @ ''::BLOB'')"
| "formatValue h (VArray vs) =
     (case vs of
        [VNumber n] \<Rightarrow> Inr (string_of_int n)
      | _ \<Rightarrow>
         (case formatValues h vs of
            Inl f \<Rightarrow> Inl f
          | Inr formatted \<Rightarrow> Inr (''['' @ join '', '' formatted @ '']'')))"
| "formatValue h (VObject kvs) =
     (case JSON_stringify h (VObject kvs) of
        Inl f \<Rightarrow> Inl f
      | Inr j \<Rightarrow> Inr ([squote] @ double_quotes j @ [squote] @ ''::JSON''))"
| "formatValues h [] = Inr []"
| "formatValues h (v # vs) =
     (case formatValue h v of
        Inl f \<Rightarrow> Inl f
      | Inr x \<Rightarrow> (case formatValues h vs of Inl f \<Rightarrow> Inl f | Inr xs \<Rightarrow> Inr (x # xs)))"

text \<open>The loop of \<^verbatim>\<open>substituteParams\<close>: \<open>i\<close> counts the parameters already
  substituted.\<close>

fun substitute_from :: "host \<Rightarrow> nat \<Rightarrow> DuckDBValue list \<Rightarrow> string \<Rightarrow> fault + string" where
  "substitute_from h i [] result = Inr result"
| "substitute_from h i (p # ps) result =
     (let placeholder = ''$'' @ string_of_nat (i + 1)
      in case formatValue h p of
           Inl f \<Rightarrow> Inl f
         | Inr v \<Rightarrow> substitute_from h (i + 1) ps (join v (split result placeholder)))"

definition substituteParams :: "host \<Rightarrow> string \<Rightarrow> DuckDBValue list \<Rightarrow> fault + string" where
  "substituteParams h q params =
     (if length params = 0 then Inr q else substitute_from h 0 params q)"

section \<open>Properties of identifier validation\<close>

lemma trim_unchanged:
  assumes "s \<noteq> []" "\<not> is_space (hd s)" "\<not> is_space (last s)"
  shows "trim s = s"
proof -
  have front: "dropWhile is_space s = s"
    using assms(1,2) by (simp add: dropWhile_eq_self_iff)
  have "hd (rev s) = last s"
    using assms(1) by (simp add: hd_rev)
  with assms(3) have rear: "dropWhile is_space (rev s) = rev s"
    by (simp add: dropWhile_eq_self_iff)
  show ?thesis
    by (simp add: trim_def front rear)
qed

text \<open>
  Claim C5, as the code has it: on success \<open>sanitized\<close> is the input with leading and
  trailing white space removed, and nothing else is changed (no quoting); it is the
  input itself when the input neither starts nor ends with white space; and
  \<open>sanitized\<close> is present only when \<open>valid\<close> is true.
\<close>

theorem validateIdentifier_sanitized_is_trimmed_input:
  "(id_valid (validateIdentifier i c) \<longrightarrow> sanitized (validateIdentifier i c) = Some (trim i)) \<and>
   (id_valid (validateIdentifier i c) \<and> \<not> is_space (hd i) \<and> \<not> is_space (last i) \<longrightarrow>
      sanitized (validateIdentifier i c) = Some i) \<and>
   (sanitized (validateIdentifier i c) \<noteq> None \<longrightarrow> id_valid (validateIdentifier i c))"
proof -
  have trimmed: "sanitized (validateIdentifier i c) = Some (trim i)"
    if "id_valid (validateIdentifier i c)"
    using that by (auto simp: validateIdentifier_def Let_def split: if_splits)
  have nonempty: "i \<noteq> []" if "id_valid (validateIdentifier i c)"
    using that by (auto simp: validateIdentifier_def Let_def split: if_splits)
  have present: "id_valid (validateIdentifier i c)"
    if "sanitized (validateIdentifier i c) \<noteq> None"
    using that by (auto simp: validateIdentifier_def Let_def split: if_splits)
  show ?thesis
    using trimmed nonempty present trim_unchanged by auto
qed

theorem validateIdentifier_sanitized_witness:
  "id_valid (validateIdentifier ''events'' None) \<and>
   sanitized (validateIdentifier ''events'' None) = Some ''events'' \<and>
   sanitized (validateIdentifier ''  events '' None) = Some (trim ''  events '')"
proof -
  have v1: "id_valid (validateIdentifier ''events'' None)"
    by code_simp
  have v2: "id_valid (validateIdentifier ''  events '' None)"
    by code_simp
  have e: "\<not> is_space (hd ''events'') \<and> \<not> is_space (last ''events'')"
    by code_simp
  from validateIdentifier_sanitized_is_trimmed_input [of "''events''" None] v1 e
  have "sanitized (validateIdentifier ''events'' None) = Some ''events''"
    by blast
  moreover from validateIdentifier_sanitized_is_trimmed_input [of "''  events ''" None] v2
  have "sanitized (validateIdentifier ''  events '' None) = Some (trim ''  events '')"
    by blast
  ultimately show ?thesis
    using v1 by blast
qed

text \<open>The input \<^verbatim>\<open>" abc"\<close> is accepted, and \<open>sanitized\<close> is \<^verbatim>\<open>"abc"\<close>, which is not
  the input.\<close>

theorem validateIdentifier_trims_counterexample:
  "id_valid (validateIdentifier '' abc'' None) \<and>
   sanitized (validateIdentifier '' abc'' None) = Some ''abc'' \<and>
   sanitized (validateIdentifier '' abc'' None) \<noteq> Some '' abc''"
  by code_simp

section \<open>Properties of statement validation\<close>

text \<open>A throw of the classifier is caught and becomes the result's one error.\<close>

lemma validateSql_catches_classifier_throw:
  assumes "sql \<noteq> []" and "trim sql \<noteq> []"
    and "int (length sql) \<le> cfg_maxQueryLength (merge_config config)"
    and "identify sql = Inl err"
  shows "validateSql identify sql config =
      Inr \<lparr>valid = False, errors = [''Failed to parse SQL: '' @ thrown_message err],
           statementType = None\<rparr>"
  using assms by (simp add: validateSql_def Let_def)

text \<open>\<^verbatim>\<open>validateSql\<close> returns unless the classifier answers one statement without a type
  while \<^verbatim>\<open>selectOnly\<close> is on.\<close>

lemma isAllowedStatementType_typed: "\<exists>a. isAllowedStatementType (Some t) = Inr a"
  by (auto simp: isAllowedStatementType_def)

lemma validateSql_returns:
  assumes "\<And>stmt. identify sql = Inr [stmt] \<Longrightarrow>
    type stmt \<noteq> None \<or> \<not> cfg_selectOnly (merge_config config)"
  shows "\<exists>r. validateSql identify sql config = Inr r"
proof (cases "identify sql")
  case (Inl err)
  then show ?thesis
    by (simp add: validateSql_def Let_def)
next
  case (Inr statements)
  show ?thesis
  proof (cases statements)
    case Nil
    with Inr show ?thesis
      by (simp add: validateSql_def Let_def)
  next
    case (Cons stmt more)
    show ?thesis
    proof (cases more)
      case Nil
      with Inr Cons have "identify sql = Inr [stmt]"
        by simp
      from assms [OF this] consider (typed) t where "type stmt = Some t"
        | (off) "\<not> cfg_selectOnly (merge_config config)"
        by auto
      then show ?thesis
      proof cases
        case typed
        obtain a where "isAllowedStatementType (Some t) = Inr a"
          using isAllowedStatementType_typed by blast
        with typed Inr Cons Nil show ?thesis
          by (simp add: validateSql_def Let_def)
      next
        case off
        with Inr Cons Nil show ?thesis
          by (simp add: validateSql_def Let_def)
      qed
    next
      case (Cons stmt2 more2)
      with Inr \<open>statements = stmt # more\<close> show ?thesis
        by (simp add: validateSql_def Let_def)
    qed
  qed
qed

lemma validateSql_valid_iff:
  "validateSql identify sql config = Inr r \<Longrightarrow> valid r = (errors r = [])"
proof (cases "identify sql")
  case (Inl err)
  assume "validateSql identify sql config = Inr r"
  with Inl show ?thesis
    by (auto simp: validateSql_def Let_def split: if_splits)
next
  case (Inr statements)
  assume "validateSql identify sql config = Inr r"
  with Inr show ?thesis
    by (cases statements)
      (auto simp: validateSql_def Let_def split: if_splits sum.splits)
qed

text \<open>
  Claim C3: \<^verbatim>\<open>validateSql\<close> does not return for every input. For the text \<^verbatim>\<open>CREATE\<close> the
  classifier answers one statement that has no type; under the default configuration
  (\<^verbatim>\<open>selectOnly\<close> on) \<^verbatim>\<open>isAllowedStatementType\<close> then calls \<^verbatim>\<open>startsWith\<close> on
  \<^verbatim>\<open>undefined\<close>, outside the \<^verbatim>\<open>try\<close>, and the TypeError leaves \<^verbatim>\<open>validateSql\<close>, and
  \<^verbatim>\<open>isReadOnlyQuery\<close> with it.
\<close>

theorem validateSql_raises_on_untyped_statement:
  "validateSql (\<lambda>text. Inr [\<lparr>type = None, executionType = e\<rparr>]) ''CREATE'' None =
     Inl TypeError \<and>
   isReadOnlyQuery (\<lambda>text. Inr [\<lparr>type = None, executionType = e\<rparr>]) ''CREATE'' =
     Inl TypeError"
proof -
  have text_ok: "''CREATE'' \<noteq> [] \<and> length (trim ''CREATE'') \<noteq> 0 \<and>
      \<not> int (length ''CREATE'') > 10000"
    by code_simp
  have check: "isAllowedStatementType None = Inl TypeError"
    by (simp add: isAllowedStatementType_def)
  have "validateSql (\<lambda>text. Inr [\<lparr>type = None, executionType = e\<rparr>]) ''CREATE'' config =
      Inl TypeError"
    if "cfg_selectOnly (merge_config config)" "cfg_maxQueryLength (merge_config config) = 10000"
    for config
    using that text_ok check by (simp add: validateSql_def Let_def)
  from this [of None]
    this [of "Some \<lparr>selectOnly = Some True, maxQueryLength = None,
                     blockDangerousFunctions = None\<rparr>"]
  show ?thesis
    by (simp add: isReadOnlyQuery_def merge_config_def DEFAULT_CONFIG_def)
qed

text \<open>
  Claim C4: every result that \<^verbatim>\<open>validateSql\<close> returns is valid exactly when its error
  list is empty, for every classifier, text and configuration; and what
  \<^verbatim>\<open>isReadOnlyQuery\<close> returns is the \<open>valid\<close> field of such a result.
\<close>

theorem validateSql_valid_iff_no_errors:
  "(validateSql identify sql config = Inr r \<longrightarrow> valid r = (errors r = [])) \<and>
   (isReadOnlyQuery identify sql = Inr b \<longrightarrow>
      (\<exists>r'. validateSql identify sql
             (Some \<lparr>selectOnly = Some True, maxQueryLength = None,
                    blockDangerousFunctions = None\<rparr>) = Inr r' \<and>
           b = valid r' \<and> valid r' = (errors r' = [])))"
proof (intro conjI impI)
  assume "validateSql identify sql config = Inr r"
  then show "valid r = (errors r = [])"
    by (rule validateSql_valid_iff)
next
  let ?config = "Some \<lparr>selectOnly = Some True, maxQueryLength = None,
                    blockDangerousFunctions = None\<rparr>"
  assume b: "isReadOnlyQuery identify sql = Inr b"
  then obtain r' where r': "validateSql identify sql ?config = Inr r'" and "b = valid r'"
    by (auto simp: isReadOnlyQuery_def split: sum.splits)
  with validateSql_valid_iff [OF r']
  show "\<exists>r'. validateSql identify sql ?config = Inr r' \<and> b = valid r' \<and>
      valid r' = (errors r' = [])"
    by blast
qed

theorem validateSql_valid_iff_no_errors_witness:
  "validateSql (\<lambda>text. Inr [\<lparr>type = Some ''DELETE'', executionType = Some ''MODIFICATION''\<rparr>])
     ''DELETE FROM t'' None =
   Inr \<lparr>valid = False,
        errors = [''DELETE statements are not allowed. Only SELECT and SHOW statements are permitted.'',
                  ''Write operations (DELETE) are not allowed''],
        statementType = Some ''DELETE''\<rparr> \<and>
   isReadOnlyQuery (\<lambda>text. Inr [\<lparr>type = Some ''SELECT'', executionType = Some ''LISTING''\<rparr>])
     ''SELECT 1'' = Inr True \<and>
   (\<exists>r. validateSql (\<lambda>text. Inr [\<lparr>type = Some ''SELECT'', executionType = Some ''LISTING''\<rparr>])
          ''SELECT 1''
          (Some \<lparr>selectOnly = Some True, maxQueryLength = None,
                 blockDangerousFunctions = None\<rparr>) = Inr r \<and> valid r \<and> errors r = [])"
proof -
  let ?del = "\<lambda>text::string. Inr [\<lparr>type = Some ''DELETE'', executionType = Some ''MODIFICATION''\<rparr>]
    :: thrown + Result list"
  let ?sel = "\<lambda>text::string. Inr [\<lparr>type = Some ''SELECT'', executionType = Some ''LISTING''\<rparr>]
    :: thrown + Result list"
  let ?r = "\<lparr>valid = False,
        errors = [''DELETE statements are not allowed. Only SELECT and SHOW statements are permitted.'',
                  ''Write operations (DELETE) are not allowed''],
        statementType = Some ''DELETE''\<rparr>"
  have del: "validateSql ?del ''DELETE FROM t'' None = Inr ?r"
    by code_simp
  have ro: "isReadOnlyQuery ?sel ''SELECT 1'' = Inr True"
    by code_simp
  from validateSql_valid_iff_no_errors [of ?del "''DELETE FROM t''" None ?r] del
  have "valid ?r = (errors ?r = [])"
    by blast
  from validateSql_valid_iff_no_errors [where identify = ?sel and sql = "''SELECT 1''" and b = True] ro
  obtain r' where "validateSql ?sel ''SELECT 1''
          (Some \<lparr>selectOnly = Some True, maxQueryLength = None,
                 blockDangerousFunctions = None\<rparr>) = Inr r'"
    and "True = valid r'" and "valid r' = (errors r' = [])"
    by blast
  then have "\<exists>r. validateSql ?sel ''SELECT 1''
          (Some \<lparr>selectOnly = Some True, maxQueryLength = None,
                 blockDangerousFunctions = None\<rparr>) = Inr r \<and> valid r \<and> errors r = []"
    by auto
  with del ro show ?thesis
    by (intro conjI)
qed

text \<open>
  Claim C1, as the code has it: a text that is not blank, is no longer than
  \<^verbatim>\<open>maxQueryLength\<close>, and that the classifier splits into two or more statements, gets
  the single error \<^verbatim>\<open>Multiple statements are not allowed\<close>, whatever the configuration
  says about \<^verbatim>\<open>selectOnly\<close> and \<^verbatim>\<open>blockDangerousFunctions\<close>.
\<close>

theorem validateSql_rejects_stacked_statements:
  assumes "sql \<noteq> []" and "trim sql \<noteq> []"
    and "int (length sql) \<le> cfg_maxQueryLength (merge_config config)"
    and "identify sql = Inr statements" and "length statements > 1"
  shows "validateSql identify sql config =
     Inr \<lparr>valid = False, errors = [''Multiple statements are not allowed''],
          statementType = None\<rparr>"
  using assms by (simp add: validateSql_def Let_def)

theorem validateSql_rejects_stacked_statements_witness:
  "validateSql (\<lambda>text. Inr [\<lparr>type = Some ''SELECT'', executionType = Some ''LISTING''\<rparr>,
                           \<lparr>type = Some ''DELETE'', executionType = Some ''MODIFICATION''\<rparr>])
     ''SELECT read_csv(1); DELETE FROM t''
     (Some \<lparr>selectOnly = Some False, maxQueryLength = None, blockDangerousFunctions = None\<rparr>) =
   Inr \<lparr>valid = False, errors = [''Multiple statements are not allowed''],
        statementType = None\<rparr>"
proof -
  let ?identify = "\<lambda>text::string. Inr [\<lparr>type = Some ''SELECT'', executionType = Some ''LISTING''\<rparr>,
                           \<lparr>type = Some ''DELETE'', executionType = Some ''MODIFICATION''\<rparr>] :: thrown + Result list"
  have a: "''SELECT read_csv(1); DELETE FROM t'' \<noteq> []"
    by simp
  have b: "trim ''SELECT read_csv(1); DELETE FROM t'' \<noteq> []"
    by code_simp
  have c: "int (length ''SELECT read_csv(1); DELETE FROM t'') \<le> cfg_maxQueryLength (merge_config
      (Some \<lparr>selectOnly = Some False, maxQueryLength = None, blockDangerousFunctions = None\<rparr>))"
    by code_simp
  have d: "?identify ''SELECT read_csv(1); DELETE FROM t'' =
      Inr [\<lparr>type = Some ''SELECT'', executionType = Some ''LISTING''\<rparr>,
           \<lparr>type = Some ''DELETE'', executionType = Some ''MODIFICATION''\<rparr>]"
    by simp
  have e: "length [\<lparr>type = Some ''SELECT'', executionType = Some ''LISTING''\<rparr>,
                   \<lparr>type = Some ''DELETE'', executionType = Some ''MODIFICATION''\<rparr>] > 1"
    by simp
  from validateSql_rejects_stacked_statements [OF a b c d e] show ?thesis .
qed

text \<open>The length check comes before the classifier: with \<^verbatim>\<open>maxQueryLength\<close> 5, the two
  statements \<^verbatim>\<open>SELECT 1; SELECT 2\<close> are rejected for their length, not as multiple
  statements.\<close>

theorem validateSql_length_check_first_counterexample:
  "validateSql (\<lambda>text. Inr [\<lparr>type = Some ''SELECT'', executionType = Some ''LISTING''\<rparr>,
                           \<lparr>type = Some ''SELECT'', executionType = Some ''LISTING''\<rparr>])
     ''SELECT 1; SELECT 2''
     (Some \<lparr>selectOnly = None, maxQueryLength = Some 5, blockDangerousFunctions = None\<rparr>) =
   Inr \<lparr>valid = False, errors = [''Query exceeds maximum length of 5 bytes''],
        statementType = None\<rparr> \<and>
   validateSql (\<lambda>text. Inr [\<lparr>type = Some ''SELECT'', executionType = Some ''LISTING''\<rparr>,
                           \<lparr>type = Some ''SELECT'', executionType = Some ''LISTING''\<rparr>])
     ''SELECT 1; SELECT 2''
     (Some \<lparr>selectOnly = None, maxQueryLength = Some 5, blockDangerousFunctions = None\<rparr>) \<noteq>
   Inr \<lparr>valid = False, errors = [''Multiple statements are not allowed''],
        statementType = None\<rparr>"
  by code_simp

subsection \<open>The deny-list pattern\<close>

text \<open>Lower-casing keeps the character classes the pattern tests.\<close>

lemma code_unit_less: "code_unit c < 256"
  by (simp add: code_unit_def)

lemma code_unit_eq_iff: "code_unit c = code_unit d \<longleftrightarrow> c = d"
  by (simp add: code_unit_def)

lemma code_unit_lower_char:
  "code_unit (lower_char c) =
     (if (65 \<le> code_unit c \<and> code_unit c \<le> 90) \<or>
         (192 \<le> code_unit c \<and> code_unit c \<le> 222 \<and> code_unit c \<noteq> 215)
      then code_unit c + 32 else code_unit c)"
  by (auto simp: lower_char_def code_unit_def Let_def)

lemma is_space_lower_char [simp]: "is_space (lower_char c) = is_space c"
  by (auto simp: is_space_def code_unit_lower_char Let_def)

lemma is_word_lower_char [simp]: "is_word (lower_char c) = is_word c"
proof -
  have u: "code_unit (CHR ''_'') = 95"
    by (simp add: code_unit_def)
  have "lower_char c = CHR ''_'' \<longleftrightarrow> c = CHR ''_''"
    unfolding code_unit_eq_iff [symmetric] u code_unit_lower_char by auto
  then show ?thesis
    by (auto simp: is_word_def is_ident_start_def is_upper_def is_lower_def is_digit_def
        code_unit_lower_char Let_def)
qed

lemma lower_char_paren [simp]: "lower_char c = CHR ''('' \<longleftrightarrow> c = CHR ''(''"
proof -
  have u: "code_unit (CHR ''('') = 40"
    by (simp add: code_unit_def)
  show ?thesis
    unfolding code_unit_eq_iff [symmetric] u code_unit_lower_char by auto
qed

lemma lower_char_idem [simp]: "lower_char (lower_char c) = lower_char c"
  unfolding code_unit_eq_iff [symmetric] by (auto simp: code_unit_lower_char)



lemma not_space_paren [simp]: "\<not> is_space (CHR ''('')"
  by (simp add: is_space_def code_unit_def)
lemma spaces_then_paren_intro:
  "list_all is_space ws \<Longrightarrow> spaces_then_paren (ws @ CHR ''('' # rest)"
  by (induction ws) simp_all

lemma spaces_then_paren_elim:
  "spaces_then_paren s \<Longrightarrow> \<exists>ws rest. s = ws @ CHR ''('' # rest \<and> list_all is_space ws"
proof (induction s)
  case Nil
  then show ?case by simp
next
  case (Cons c cs)
  show ?case
  proof (cases "c = CHR ''(''")
    case True
    then have "c # cs = [] @ CHR ''('' # cs" and "list_all is_space []"
      by simp_all
    then show ?thesis by blast
  next
    case False
    with Cons.prems have sp: "is_space c" and "spaces_then_paren cs"
      by (simp_all split: if_splits)
    with Cons.IH obtain ws rest where "cs = ws @ CHR ''('' # rest" "list_all is_space ws"
      by blast
    with sp have "c # cs = (c # ws) @ CHR ''('' # rest" and "list_all is_space (c # ws)"
      by simp_all
    then show ?thesis by blast
  qed
qed

lemma spaces_then_paren_iff:
  "spaces_then_paren s \<longleftrightarrow> (\<exists>ws rest. s = ws @ CHR ''('' # rest \<and> list_all is_space ws)"
  using spaces_then_paren_intro spaces_then_paren_elim by blast






subsection \<open>The reported errors\<close>




lemma dangerous_message_inj [simp]: "dangerous_message f = dangerous_message g \<longleftrightarrow> f = g"
  by (simp add: dangerous_message_def)




lemma statement_messages_differ [simp]:
  "t @ '' statements are not allowed. '' @ ''Only SELECT and SHOW statements are permitted.''
     \<noteq> ''Write operations ('' @ t' @ '') are not allowed''"
proof
  assume "t @ '' statements are not allowed. '' @ ''Only SELECT and SHOW statements are permitted.''
     = ''Write operations ('' @ t' @ '') are not allowed''"
  then have "last (t @ '' statements are not allowed. '' @
      ''Only SELECT and SHOW statements are permitted.'') =
      last (''Write operations ('' @ t' @ '') are not allowed'')"
    by (rule arg_cong)
  then show False
    by simp
qed









section \<open>Properties of result translation\<close>






lemma map_fault_raises:
  "x \<in> set xs \<Longrightarrow> f x = Inl e \<Longrightarrow> \<exists>e'. map_fault f xs = Inl e'"
  by (induction xs) (auto split: sum.splits)

lemma transformValue_bad_micros:
  "StringToBigInt s = Inl e \<Longrightarrow> transformValue (WObj [(''micros'', WStr s)]) = Inl e"
  by (simp add: transformValue_def only_key_def Object_keys_def to_BigInt_def)

text \<open>
  Claim C10: result translation is not total. The cell \<^verbatim>\<open>{"micros": "abc"}\<close> makes
  \<^verbatim>\<open>transformValue\<close> raise a SyntaxError, and a response that holds this cell in
  some row under some column makes the constructor of the query result raise.
\<close>

theorem new_HttpQueryResult_raises_on_unparsable_micros:
  "transformValue (WObj [(''micros'', WStr ''abc'')]) = Inl SyntaxError \<and>
   (\<forall>cols data row col.
      row \<in> set data \<and> col \<in> set cols \<and>
      row_field row col = WObj [(''micros'', WStr ''abc'')] \<longrightarrow>
      (\<exists>e. new_HttpQueryResult cols data = Inl e))"
proof -
  have parse: "StringToBigInt ''abc'' = Inl SyntaxError"
    by code_simp
  then have cell: "transformValue (WObj [(''micros'', WStr ''abc'')]) = Inl SyntaxError"
    by (rule transformValue_bad_micros)
  have "\<exists>e. new_HttpQueryResult cols data = Inl e"
    if "row \<in> set data" "col \<in> set cols"
      "row_field row col = WObj [(''micros'', WStr ''abc'')]"
    for cols data row col
  proof -
    have "transformValue (row_field row col) = Inl SyntaxError"
      using that(3) cell by simp
    with that(2)
    obtain e1 where "map_fault (\<lambda>col. transformValue (row_field row col)) cols = Inl e1"
      using map_fault_raises [of col cols "\<lambda>col. transformValue (row_field row col)"] by blast
    with that(1)
    obtain e2 where
      "map_fault (\<lambda>row. map_fault (\<lambda>col. transformValue (row_field row col)) cols) data = Inl e2"
      using map_fault_raises
        [of row data "\<lambda>row. map_fault (\<lambda>col. transformValue (row_field row col)) cols"]
      by blast
    then show ?thesis
      by (simp add: new_HttpQueryResult_def)
  qed
  with cell show ?thesis
    by blast
qed

theorem new_HttpQueryResult_raises_witness:
  "new_HttpQueryResult [''a''] [[(''a'', WObj [(''micros'', WStr ''abc'')])]] = Inl SyntaxError"
proof -
  have "row_field [(''a'', WObj [(''micros'', WStr ''abc'')])] ''a'' =
          WObj [(''micros'', WStr ''abc'')]"
    by (simp add: row_field_def)
  with new_HttpQueryResult_raises_on_unparsable_micros
  obtain e where "new_HttpQueryResult [''a''] [[(''a'', WObj [(''micros'', WStr ''abc'')])]] = Inl e"
    by (metis list.set_intros(1))
  moreover have "new_HttpQueryResult [''a''] [[(''a'', WObj [(''micros'', WStr ''abc'')])]]
      = Inl SyntaxError"
    by code_simp
  ultimately show ?thesis by simp
qed

text \<open>The suffix of a name is the number of its earlier occurrences: the first occurrence
  is unchanged, the next ones get \<open>_1\<close>, \<open>_2\<close>, ...\<close>

lemma dedup_names_length: "length (dedup_names seen names) = length names"
  by (induction names arbitrary: seen) (auto simp: Let_def)

lemma dedup_names_nth:
  "i < length names \<Longrightarrow>
   dedup_names seen names ! i =
     (let k = (case seen (names ! i) of None \<Rightarrow> 0 | Some c \<Rightarrow> c) +
              count_list (take i names) (names ! i)
      in if k = 0 then names ! i else names ! i @ ''_'' @ string_of_nat k)"
proof (induction names arbitrary: seen i)
  case Nil
  then show ?case by simp
next
  case (Cons name rest)
  show ?case
  proof (cases i)
    case 0
    then show ?thesis by (simp add: Let_def)
  next
    case (Suc j)
    with Cons.prems have j: "j < length rest" by simp
    define c where "c = (case seen name of None \<Rightarrow> 0 | Some c \<Rightarrow> c)"
    define seen' where "seen' = seen(name \<mapsto> c + 1)"
    have step: "dedup_names seen (name # rest) ! Suc j = dedup_names seen' rest ! j"
      by (simp add: Let_def c_def seen'_def)
    have count:
      "(case seen' (rest ! j) of None \<Rightarrow> 0 | Some c \<Rightarrow> c) + count_list (take j rest) (rest ! j) =
       (case seen (rest ! j) of None \<Rightarrow> 0 | Some c \<Rightarrow> c) +
         count_list (take (Suc j) (name # rest)) (rest ! j)"
      by (cases "rest ! j = name") (simp_all add: seen'_def c_def)
    have "dedup_names seen' rest ! j =
        (let k = (case seen' (rest ! j) of None \<Rightarrow> 0 | Some c \<Rightarrow> c) +
                 count_list (take j rest) (rest ! j)
         in if k = 0 then rest ! j else rest ! j @ ''_'' @ string_of_nat k)"
      by (rule Cons.IH [OF j])
    then show ?thesis
      unfolding Suc step count by simp
  qed
qed

lemma deduplicatedColumnNames_suffixes:
  "i < length (columns r) \<Longrightarrow>
   deduplicatedColumnNames r ! i =
     (let k = count_list (take i (columns r)) (columns r ! i)
      in if k = 0 then columns r ! i else columns r ! i @ ''_'' @ string_of_nat k)"
  by (simp add: deduplicatedColumnNames_def dedup_names_nth)

lemma deduplicatedColumnNames_two_x:
  "deduplicatedColumnNames \<lparr>columns = [''x'', ''x''], rows = rs\<rparr> = [''x'', ''x_1'']"
  by code_simp

text \<open>
  Claim C8: the suffixing rule holds (\<open>deduplicatedColumnNames_suffixes\<close>), but the
  returned names are not always pairwise different. For the columns
  \<^verbatim>\<open>["x", "x", "x_1"]\<close> the second \<^verbatim>\<open>x\<close> becomes \<^verbatim>\<open>x_1\<close>, and the third column keeps
  its own name \<^verbatim>\<open>x_1\<close>: the result names \<^verbatim>\<open>x_1\<close> twice.
\<close>

theorem deduplicatedColumnNames_repeats_a_name:
  "deduplicatedColumnNames \<lparr>columns = [''x'', ''x'', ''x_1''], rows = rs\<rparr> = [''x'', ''x_1'', ''x_1''] \<and>
   \<not> distinct (deduplicatedColumnNames \<lparr>columns = [''x'', ''x'', ''x_1''], rows = rs\<rparr>)"
  by code_simp

section \<open>Properties of parameter substitution\<close>

lemma formatValue_literals:
  "formatValue h VNull = Inr ''NULL''"
  "formatValue h (VBoolean True) = Inr ''TRUE''"
  "formatValue h (VBoolean False) = Inr ''FALSE''"
  "formatValue h (VNumber n) = Inr (string_of_int n)"
  "formatValue h (VBigInt n) = Inr (string_of_int n)"
  "formatValue h (VString s) = Inr ([squote] @ double_quotes s @ [squote])"
  "formatValue h (VArray [VNumber n]) = Inr (string_of_int n)"
  by simp_all

text \<open>A date, bytes, a list and a plain object.\<close>

lemma formatValue_composites:
  "toISOString h t = Inr isoText \<Longrightarrow>
     formatValue h (VDate t) = Inr ([squote] @ isoText @ [squote])"
  "formatValue h (VUint8Array [0xAB, 0x01]) =
     Inr ([squote, CHR 0x5C] @ ''xab01'' @ [squote] @ ''::BLOB'')"
  "formatValue h (VArray [VNumber 1, VString ''a'', VNull]) =
     Inr (''[1, '' @ [squote] @ ''a'' @ [squote] @ '', NULL]'')"
  "JSON_stringify h (VObject kvs) = Inr j \<Longrightarrow>
     formatValue h (VObject kvs) = Inr ([squote] @ double_quotes j @ [squote] @ ''::JSON'')"
proof -
  show "toISOString h t = Inr isoText \<Longrightarrow>
     formatValue h (VDate t) = Inr ([squote] @ isoText @ [squote])"
    by simp
  show "formatValue h (VUint8Array [0xAB, 0x01]) =
     Inr ([squote, CHR 0x5C] @ ''xab01'' @ [squote] @ ''::BLOB'')"
    by code_simp
  show "formatValue h (VArray [VNumber 1, VString ''a'', VNull]) =
     Inr (''[1, '' @ [squote] @ ''a'' @ [squote] @ '', NULL]'')"
    by code_simp
  show "JSON_stringify h (VObject kvs) = Inr j \<Longrightarrow>
     formatValue h (VObject kvs) = Inr ([squote] @ double_quotes j @ [squote] @ ''::JSON'')"
    by simp
qed

lemma substituteParams_limit_example:
  "substituteParams h ''SELECT * FROM t LIMIT $1'' [VArray [VNumber 25]] =
     Inr ''SELECT * FROM t LIMIT 25''"
  by code_simp

text \<open>
  Claim C6: the encodings of the single values are as claimed
  (\<open>formatValue_literals\<close>, \<open>formatValue_composites\<close>,
  \<open>substituteParams_limit_example\<close>), but a placeholder is
  not always replaced by its own parameter. The loop replaces the text \<^verbatim>\<open>$1\<close> wherever it
  stands, also at the start of \<^verbatim>\<open>$10\<close>: with ten parameters \<^verbatim>\<open>'a'\<close> ... \<^verbatim>\<open>'j'\<close>, the query
  \<^verbatim>\<open>SELECT $10\<close> becomes \<^verbatim>\<open>SELECT 'a'0\<close> and not \<^verbatim>\<open>SELECT 'j'\<close>.
\<close>

theorem substituteParams_placeholder_prefix_clash:
  "substituteParams h ''SELECT $10''
     [VString ''a'', VString ''b'', VString ''c'', VString ''d'', VString ''e'',
      VString ''f'', VString ''g'', VString ''h'', VString ''i'', VString ''j''] =
   Inr (''SELECT '' @ [squote] @ ''a'' @ [squote] @ ''0'')"
  by code_simp

text \<open>A placeholder that a substituted value brings in is substituted as well.\<close>

lemma substituteParams_resubstitutes:
  "substituteParams h ''SELECT $1'' [VString ''$2'', VString ''x''] =
   Inr (''SELECT '' @ [squote] @ [squote] @ ''x'' @ [squote] @ [squote])"
  by code_simp


section \<open>Properties of prepared statements\<close>

text \<open>On a destroyed statement every call sequence keeps it destroyed; each \<^verbatim>\<open>bind\<close>
  and \<^verbatim>\<open>run\<close> in it raises.\<close>

lemma do_calls_destroyed:
  "destroyed s \<Longrightarrow>
   fst (do_calls s cs) =
     map (\<lambda>c. case c of
            Bind vals \<Rightarrow> Raised (Error ''Cannot bind to destroyed prepared statement'')
          | Run \<Rightarrow> Raised (Error ''Cannot run destroyed prepared statement'')
          | DestroySync \<Rightarrow> Returned) cs \<and>
   destroyed (snd (do_calls s cs))"
proof (induction cs arbitrary: s)
  case Nil
  then show ?case by simp
next
  case (Cons c cs)
  obtain out s' where step: "do_call s c = (out, s')"
    by (cases "do_call s c")
  with Cons.prems have s': "destroyed s'"
    by (cases c) (auto simp: do_call_def bind_def run_def destroySync_def)
  from step Cons.prems have out:
    "out = (case c of
            Bind vals \<Rightarrow> Raised (Error ''Cannot bind to destroyed prepared statement'')
          | Run \<Rightarrow> Raised (Error ''Cannot run destroyed prepared statement'')
          | DestroySync \<Rightarrow> Returned)"
    by (cases c) (auto simp: do_call_def bind_def run_def destroySync_def)
  from Cons.IH [OF s'] step out show ?case
    by (simp add: case_prod_unfold)
qed

text \<open>
  Claim C9: after \<^verbatim>\<open>destroySync()\<close> the bound values are empty and every later \<^verbatim>\<open>bind\<close>
  and \<^verbatim>\<open>run\<close> raises, whatever calls come between; before it, \<^verbatim>\<open>run\<close> hands the
  stored query and the bound values to the executor, and \<^verbatim>\<open>bind\<close> replaces the bound
  values.
\<close>

theorem prepared_statement_lifecycle:
  "bind (destroySync s) vals = Inl (Error ''Cannot bind to destroyed prepared statement'') \<and>
   run (destroySync s) = Inl (Error ''Cannot run destroyed prepared statement'') \<and>
   boundValues (destroySync s) = [] \<and>
   fst (do_calls (destroySync s) cs) =
     map (\<lambda>c. case c of
            Bind vals \<Rightarrow> Raised (Error ''Cannot bind to destroyed prepared statement'')
          | Run \<Rightarrow> Raised (Error ''Cannot run destroyed prepared statement'')
          | DestroySync \<Rightarrow> Returned) cs \<and>
   (\<not> destroyed s \<longrightarrow>
      run s = Inr (executor s (query s) (boundValues s)) \<and>
      (\<exists>s'. bind s vals = Inr s' \<and> boundValues s' = vals \<and> query s' = query s \<and>
            executor s' = executor s \<and> \<not> destroyed s' \<and>
            run s' = Inr (executor s (query s) vals)))"
proof -
  have d: "destroyed (destroySync s)"
    by (simp add: destroySync_def)
  have after: "bind (destroySync s) vals = Inl (Error ''Cannot bind to destroyed prepared statement'')"
    "run (destroySync s) = Inl (Error ''Cannot run destroyed prepared statement'')"
    "boundValues (destroySync s) = []"
    by (simp_all add: bind_def run_def destroySync_def)
  have before: "run s = Inr (executor s (query s) (boundValues s)) \<and>
      (\<exists>s'. bind s vals = Inr s' \<and> boundValues s' = vals \<and> query s' = query s \<and>
            executor s' = executor s \<and> \<not> destroyed s' \<and>
            run s' = Inr (executor s (query s) vals))"
    if "\<not> destroyed s"
    using that by (simp add: bind_def run_def)
  from after do_calls_destroyed [OF d, of cs] before show ?thesis
    by blast
qed

theorem prepared_statement_lifecycle_witness:
  "(let s = new_HttpPreparedStatement ''SELECT $1::INTEGER AS v'' (\<lambda>q ps. (q, ps))
    in \<not> destroyed s \<and>
       run s = Inr (''SELECT $1::INTEGER AS v'', []) \<and>
       (\<exists>s'. bind s [VNumber 42] = Inr s' \<and>
             run s' = Inr (''SELECT $1::INTEGER AS v'', [VNumber 42])) \<and>
       bind (destroySync s) [VNumber 1] =
         Inl (Error ''Cannot bind to destroyed prepared statement''))"
proof -
  define s :: "(string \<times> DuckDBValue list) HttpPreparedStatement"
    where "s = new_HttpPreparedStatement ''SELECT $1::INTEGER AS v'' (\<lambda>q ps. (q, ps))"
  have live: "\<not> destroyed s"
    by (simp add: s_def new_HttpPreparedStatement_def)
  have fields: "query s = ''SELECT $1::INTEGER AS v''" "boundValues s = []"
    "executor s = (\<lambda>q ps. (q, ps))"
    by (simp_all add: s_def new_HttpPreparedStatement_def)
  from prepared_statement_lifecycle [of s "[VNumber 42]" "[]"] live fields
  have "run s = Inr (''SELECT $1::INTEGER AS v'', [])"
    and "\<exists>s'. bind s [VNumber 42] = Inr s' \<and>
             run s' = Inr (''SELECT $1::INTEGER AS v'', [VNumber 42])"
    by auto
  moreover from prepared_statement_lifecycle [of s "[VNumber 1]" "[]"]
  have "bind (destroySync s) [VNumber 1] =
         Inl (Error ''Cannot bind to destroyed prepared statement'')"
    by blast
  ultimately show ?thesis
    using live unfolding s_def Let_def by blast
qed

end
